theory Spec2Isabelle
  imports Main "HOL-Library.Multiset"
begin

section \<open>The analytics service: apps/analytics/main.py\<close>

text \<open>
  The module builds one application object, registers two handlers on it with the
  decorators \<^verbatim>\<open>@app.get("/")\<close> and \<^verbatim>\<open>@app.get("/health")\<close>, and, when it is run as a
  script, hands the application to \<^verbatim>\<open>uvicorn.run\<close>. Both handlers take no parameter and
  return a dict display with one string key and one string value.
\<close>

subsection \<open>Values and program state\<close>

text \<open>
  A dict of the module has string keys and string values; it is kept in insertion
  order. A dict display allocates a new dict object on every evaluation, so the
  objects live in a heap and a handler returns a reference: the position of the object
  in the heap.
\<close>

type_synonym pydict = "(string \<times> string) list"

type_synonym ref = nat

text \<open>The two function objects of the module.\<close>

datatype fn = Fn_root | Fn_health_check

text \<open>
  A route as a decorator registers it, and the application object: the three keyword
  arguments of the constructor call and the routes the module has registered (in the
  order of registration).
\<close>

record route =
  path :: string
  endpoint :: fn
  methods :: "string list"

record fastapi =
  title :: string
  description :: string
  version :: string
  routes :: "route list"

text \<open>
  The state a handler runs in: the module's global \<^verbatim>\<open>app\<close> and the heap of dict
  objects allocated so far.
\<close>

record state =
  app :: fastapi
  heap :: "pydict list"

subsection \<open>Lines 3 to 15: the application, the handlers and their routes\<close>

definition FastAPI :: "string \<Rightarrow> string \<Rightarrow> string \<Rightarrow> fastapi" where
  "FastAPI t d v = \<lparr>title = t, description = d, version = v, routes = []\<rparr>"

text \<open>\<^verbatim>\<open>@app.get(p)\<close> on a function \<open>f\<close>: one more route, for the method GET only.\<close>

definition app_get :: "string \<Rightarrow> fn \<Rightarrow> fastapi \<Rightarrow> fastapi" where
  "app_get p f a = a\<lparr>routes := routes a @ [\<lparr>path = p, endpoint = f, methods = [''GET'']\<rparr>]\<rparr>"

definition module_app :: fastapi where
  "module_app =
     app_get ''/health'' Fn_health_check
       (app_get ''/'' Fn_root
          (FastAPI ''Brixsport Analytics API''
             ''Analytics service for Brixsport campus live score application''
             ''1.0.0''))"

text \<open>A dict display: the new object goes to the end of the heap.\<close>

definition alloc :: "pydict \<Rightarrow> state \<Rightarrow> ref \<times> state" where
  "alloc d s = (length (heap s), s\<lparr>heap := heap s @ [d]\<rparr>)"

definition deref :: "state \<Rightarrow> ref \<Rightarrow> pydict" where
  "deref s r = heap s ! r"

definition root :: "state \<Rightarrow> ref \<times> state" where
  "root s = alloc [(''message'', ''Brixsport Analytics Service'')] s"

definition health_check :: "state \<Rightarrow> ref \<times> state" where
  "health_check s = alloc [(''status'', ''OK'')] s"

fun call :: "fn \<Rightarrow> state \<Rightarrow> ref \<times> state" where
  "call Fn_root s = root s"
| "call Fn_health_check s = health_check s"

text \<open>Calling handlers one after the other, collecting what they return.\<close>

fun calls :: "fn list \<Rightarrow> state \<Rightarrow> ref list \<times> state" where
  "calls [] s = ([], s)"
| "calls (f # fs) s =
     (case call f s of (r, s') \<Rightarrow> (case calls fs s' of (rs, s'') \<Rightarrow> (r # rs, s'')))"

subsection \<open>Requests and responses\<close>

record request =
  req_method :: string
  req_path :: string
  query_string :: string
  req_headers :: "(string \<times> string) list"
  req_cookies :: "(string \<times> string) list"
  req_body :: string

record response =
  status_code :: nat
  content :: pydict

text \<open>
  Modelled from the spec: the status of the response to a handler that returns, for a
  route registered without a \<^verbatim>\<open>status_code\<close> argument. It is a default of the FastAPI
  library, which is not part of the repository; the interface table of the spec gives
  200 for both routes.
\<close>

definition default_status_code :: nat where
  "default_status_code = 200"

text \<open>
  What the two decorators ask of the library: a request whose path is the route's path
  and whose method is one of the route's methods is answered by calling the route's
  function, without arguments since it declares no parameter, and sending the dict it
  returns. The first registered route that fits is taken. \<open>None\<close> stands for a request
  that no route of the module fits: the library answers it by itself, and what it
  answers is not in the module.
\<close>

definition matches :: "route \<Rightarrow> request \<Rightarrow> bool" where
  "matches r req \<longleftrightarrow> req_path req = path r \<and> req_method req \<in> set (methods r)"

definition handle :: "request \<Rightarrow> state \<Rightarrow> response option \<times> state" where
  "handle req s =
     (case find (\<lambda>r. matches r req) (routes (app s)) of
        None \<Rightarrow> (None, s)
      | Some r \<Rightarrow>
          (case call (endpoint r) s of
             (ref, s') \<Rightarrow>
               (Some \<lparr>status_code = default_status_code, content = deref s' ref\<rparr>, s')))"

fun serve :: "request list \<Rightarrow> state \<Rightarrow> response option list \<times> state" where
  "serve [] s = ([], s)"
| "serve (req # reqs) s =
     (case handle req s of
        (resp, s') \<Rightarrow> (case serve reqs s' of (resps, s'') \<Rightarrow> (resp # resps, s'')))"

subsection \<open>Lines 17 to 19: the entry point\<close>

text \<open>
  What a run of the module can read from outside and does not: the command line, the
  environment variables and the files.
\<close>

record environment =
  argv :: "string list"
  environ :: "(string \<times> string) list"
  files :: "(string \<times> string) list"

text \<open>The one call the module makes to the server library, with its arguments.\<close>

datatype action = Uvicorn_run fastapi string nat

text \<open>
  Executing the module under the name \<open>name\<close> (\<^verbatim>\<open>__name__\<close>): the value of the global
  \<^verbatim>\<open>app\<close> afterwards and the calls to the server library made on the way.
\<close>

definition exec_module :: "string \<Rightarrow> environment \<Rightarrow> fastapi \<times> action list" where
  "exec_module name env =
     (module_app,
      if name = ''__main__'' then [Uvicorn_run module_app ''0.0.0.0'' 8000] else [])"

text \<open>
  The state the first request meets: the application as the module left it, and whatever
  objects \<open>h\<close> the process holds by then.
\<close>

definition boot :: "string \<Rightarrow> environment \<Rightarrow> pydict list \<Rightarrow> state" where
  "boot name env h = \<lparr>app = fst (exec_module name env), heap = h\<rparr>"

subsection \<open>Sample inputs\<close>

text \<open>
  A request that carries a query string, a header, a cookie and a body, a request
  that carries nothing, and an environment that asks for another port in every way an
  environment can.
\<close>

definition loaded_request :: "string \<Rightarrow> string \<Rightarrow> request" where
  "loaded_request m p =
     \<lparr>req_method = m, req_path = p, query_string = ''message=hello&status=DOWN'',
      req_headers = [(''accept'', ''text/html''), (''x-status'', ''DOWN'')],
      req_cookies = [(''session'', ''abc'')],
      req_body = ''status=DOWN''\<rparr>"

definition bare_request :: "string \<Rightarrow> string \<Rightarrow> request" where
  "bare_request m p =
     \<lparr>req_method = m, req_path = p, query_string = [], req_headers = [],
      req_cookies = [], req_body = []\<rparr>"

definition loaded_environment :: environment where
  "loaded_environment =
     \<lparr>argv = [''main.py'', ''--host'', ''127.0.0.1'', ''--port'', ''9000''],
      environ = [(''HOST'', ''127.0.0.1''), (''PORT'', ''9000'')],
      files = [(''.env'', ''PORT=9000'')]\<rparr>"

definition bare_environment :: environment where
  "bare_environment = \<lparr>argv = [''main.py''], environ = [], files = []\<rparr>"

section \<open>Facts about the model\<close>

lemma routes_module_app:
  "routes module_app =
     [\<lparr>path = ''/'', endpoint = Fn_root, methods = [''GET'']\<rparr>,
      \<lparr>path = ''/health'', endpoint = Fn_health_check, methods = [''GET'']\<rparr>]"
  by (simp add: module_app_def app_get_def FastAPI_def)

lemma app_boot: "app (boot name env h) = module_app"
  by (simp add: boot_def exec_module_def)

lemma call_app: "app (snd (call f s)) = app s"
  by (cases f) (simp_all add: root_def health_check_def alloc_def)

lemma handle_app: "app (snd (handle req s)) = app s"
proof (cases "find (\<lambda>r. matches r req) (routes (app s))")
  case None
  then show ?thesis by (simp add: handle_def)
next
  case (Some r)
  then have "snd (handle req s) = snd (call (endpoint r) s)"
    by (simp add: handle_def split: prod.splits)
  then show ?thesis by (simp add: call_app)
qed

lemma serve_app: "app (snd (serve reqs s)) = app s"
proof (induction reqs arbitrary: s)
  case Nil
  then show ?case by simp
next
  case (Cons req reqs)
  have "snd (serve (req # reqs) s) = snd (serve reqs (snd (handle req s)))"
    by (simp split: prod.splits)
  then show ?case using Cons.IH [of "snd (handle req s)"] by (simp add: handle_app)
qed

lemma handle_root:
  assumes "app s = module_app" "req_method req = ''GET''" "req_path req = ''/''"
  shows "fst (handle req s) =
           Some \<lparr>status_code = 200, content = [(''message'', ''Brixsport Analytics Service'')]\<rparr>"
  using assms
  by (simp add: handle_def routes_module_app matches_def root_def alloc_def deref_def
      default_status_code_def)

lemma handle_health:
  assumes "app s = module_app" "req_method req = ''GET''" "req_path req = ''/health''"
  shows "fst (handle req s) = Some \<lparr>status_code = 200, content = [(''status'', ''OK'')]\<rparr>"
  using assms
  by (simp add: handle_def routes_module_app matches_def health_check_def alloc_def deref_def
      default_status_code_def)

subsection \<open>What a handler returns, whatever the state\<close>

lemma root_result:
  "deref (snd (root s)) (fst (root s)) = [(''message'', ''Brixsport Analytics Service'')]"
  by (simp add: root_def alloc_def deref_def)

lemma health_check_result:
  "deref (snd (health_check s)) (fst (health_check s)) = [(''status'', ''OK'')]"
  by (simp add: health_check_def alloc_def deref_def)

lemma call_result:
  "deref (snd (call f s)) (fst (call f s)) = deref (snd (call f t)) (fst (call f t))"
  by (cases f) (simp_all add: root_result health_check_result)

lemma handle_None:
  assumes "find (\<lambda>r. matches r req) (routes (app s)) = None"
  shows "handle req s = (None, s)"
  using assms by (simp add: handle_def)

lemma handle_Some:
  assumes "find (\<lambda>r. matches r req) (routes (app s)) = Some r"
  shows "fst (handle req s) =
           Some \<lparr>status_code = default_status_code,
                 content = deref (snd (call (endpoint r) s)) (fst (call (endpoint r) s))\<rparr>"
  using assms by (simp add: handle_def split: prod.splits)

lemma handle_same_route:
  assumes "req_method r1 = req_method r2" and "req_path r1 = req_path r2"
    and "app s1 = app s2"
  shows "fst (handle r1 s1) = fst (handle r2 s2)"
proof -
  have same: "(\<lambda>r. matches r r1) = (\<lambda>r. matches r r2)"
    using assms(1,2) by (simp add: matches_def fun_eq_iff)
  show ?thesis
  proof (cases "find (\<lambda>r. matches r r1) (routes (app s1))")
    case None
    moreover from None have "find (\<lambda>r. matches r r2) (routes (app s2)) = None"
      using same assms(3) by simp
    ultimately show ?thesis by (simp add: handle_None)
  next
    case (Some r)
    moreover from Some have "find (\<lambda>r. matches r r2) (routes (app s2)) = Some r"
      using same assms(3) by simp
    ultimately show ?thesis
      using call_result [of "endpoint r" s1 s2] by (simp add: handle_Some)
  qed
qed

subsection \<open>What a handler does to the state\<close>

lemma call_ref: "fst (call f s) = length (heap s)"
  by (cases f) (simp_all add: root_def health_check_def alloc_def)

lemma call_heap: "\<exists>d. heap (snd (call f s)) = heap s @ [d]"
  by (cases f) (simp_all add: root_def health_check_def alloc_def)

lemma calls_unfold:
  "calls (f # fs) s =
     (fst (call f s) # fst (calls fs (snd (call f s))), snd (calls fs (snd (call f s))))"
  by (simp split: prod.splits)

lemma calls_app: "app (snd (calls fs s)) = app s"
proof (induction fs arbitrary: s)
  case Nil
  then show ?case by simp
next
  case (Cons f fs)
  then show ?case by (simp only: calls_unfold snd_conv call_app)
qed

lemma calls_heap: "\<exists>new. heap (snd (calls fs s)) = heap s @ new \<and> length new = length fs"
proof (induction fs arbitrary: s)
  case Nil
  then show ?case by simp
next
  case (Cons f fs)
  obtain d where d: "heap (snd (call f s)) = heap s @ [d]"
    using call_heap by blast
  obtain new where new: "heap (snd (calls fs (snd (call f s)))) = heap (snd (call f s)) @ new"
    and len: "length new = length fs"
    using Cons.IH by blast
  have "heap (snd (calls (f # fs) s)) = heap s @ (d # new)"
    by (simp only: calls_unfold snd_conv new d) simp
  moreover have "length (d # new) = length (f # fs)"
    using len by simp
  ultimately show ?case by blast
qed

lemma calls_refs:
  "fst (calls fs s) = [length (heap s) ..< length (heap s) + length fs]"
proof (induction fs arbitrary: s)
  case Nil
  then show ?case by simp
next
  case (Cons f fs)
  obtain d where d: "heap (snd (call f s)) = heap s @ [d]"
    using call_heap by blast
  have len: "length (heap (snd (call f s))) = Suc (length (heap s))"
    by (simp add: d)
  have "fst (calls (f # fs) s) =
          length (heap s) # [Suc (length (heap s)) ..< Suc (length (heap s)) + length fs]"
    by (simp only: calls_unfold fst_conv call_ref Cons.IH len)
  also have "\<dots> = [length (heap s) ..< length (heap s) + length (f # fs)]"
    by (simp add: upt_conv_Cons del: upt_Suc)
  finally show ?case .
qed

lemma handle_heap: "\<exists>new. heap (snd (handle req s)) = heap s @ new"
proof (cases "find (\<lambda>r. matches r req) (routes (app s))")
  case None
  then show ?thesis by (simp add: handle_None)
next
  case (Some r)
  then have "snd (handle req s) = snd (call (endpoint r) s)"
    by (simp add: handle_def split: prod.splits)
  then show ?thesis using call_heap [of "endpoint r" s] by auto
qed

lemma serve_heap: "\<exists>new. heap (snd (serve reqs s)) = heap s @ new"
proof (induction reqs arbitrary: s)
  case Nil
  then show ?case by simp
next
  case (Cons req reqs)
  have step: "snd (serve (req # reqs) s) = snd (serve reqs (snd (handle req s)))"
    by (simp split: prod.splits)
  obtain new1 where new1: "heap (snd (handle req s)) = heap s @ new1"
    using handle_heap by blast
  obtain new2 where "heap (snd (serve reqs (snd (handle req s)))) = heap (snd (handle req s)) @ new2"
    using Cons.IH by blast
  then have "heap (snd (serve (req # reqs) s)) = heap s @ (new1 @ new2)"
    by (simp only: step new1 append_assoc)
  then show ?case by blast
qed

lemma handle_same_request_line:
  assumes "req_method r1 = req_method r2" and "req_path r1 = req_path r2"
  shows "handle r1 s = handle r2 s"
proof -
  have "(\<lambda>r. matches r r1) = (\<lambda>r. matches r r2)"
    using assms by (simp add: matches_def fun_eq_iff)
  then show ?thesis by (simp add: handle_def)
qed

lemma app_running: "app (snd (serve reqs (boot name env h))) = module_app"
  by (simp add: serve_app app_boot)

text \<open>
  The response to a request depends on the request and on the application object only,
  so each request of a list gets the response it would get if it were served alone.
\<close>

lemma serve_responses: "fst (serve reqs s) = map (\<lambda>req. fst (handle req s)) reqs"
proof (induction reqs arbitrary: s)
  case Nil
  then show ?case by simp
next
  case (Cons req reqs)
  let ?s' = "snd (handle req s)"
  have step: "fst (serve (req # reqs) s) = fst (handle req s) # fst (serve reqs ?s')"
    by (simp split: prod.splits)
  have "fst (handle r ?s') = fst (handle r s)" for r
    by (rule handle_same_route [OF refl refl]) (simp add: handle_app)
  then have "map (\<lambda>r. fst (handle r ?s')) reqs = map (\<lambda>r. fst (handle r s)) reqs"
    by simp
  then show ?case by (simp only: step Cons.IH list.map)
qed

text \<open>
  A request with another method than GET fits no route of the module: no handler of the
  module is called and the state stays as it is. The response to such a request is the
  library's own.
\<close>

lemma handle_other_method:
  assumes "app s = module_app" and "req_method req \<noteq> ''GET''"
  shows "handle req s = (None, s)"
  using assms by (simp add: handle_def routes_module_app matches_def)

section \<open>The claims\<close>

text \<open>
  C1. A GET request for the path / is answered with status 200 and the body
  \<^verbatim>\<open>{"message": "Brixsport Analytics Service"}\<close>, in every run of the module, whatever
  requests \<open>reqs\<close> were served before it and whatever else the request carries; and the
  dict that \<^verbatim>\<open>root\<close> returns is this one in every state it is called in. The status is
  the library's default for a handler that returns, \<open>default_status_code\<close>.
\<close>

theorem root_answers_200_message:
  assumes "req_method req = ''GET''" and "req_path req = ''/''"
  shows "fst (handle req (snd (serve reqs (boot name env h)))) =
           Some \<lparr>status_code = 200,
                 content = [(''message'', ''Brixsport Analytics Service'')]\<rparr>
         \<and> deref (snd (root s)) (fst (root s)) =
             [(''message'', ''Brixsport Analytics Service'')]"
  using assms handle_root [of "snd (serve reqs (boot name env h))" req]
  by (simp add: app_running root_result)

theorem root_answers_200_message_witness:
  "req_method (loaded_request ''GET'' ''/'') = ''GET''
   \<and> req_path (loaded_request ''GET'' ''/'') = ''/''
   \<and> fst (handle (loaded_request ''GET'' ''/'')
        (snd (serve [bare_request ''GET'' ''/'', bare_request ''GET'' ''/health'',
                     bare_request ''POST'' ''/'']
           (boot ''__main__'' bare_environment [])))) =
       Some \<lparr>status_code = 200,
             content = [(''message'', ''Brixsport Analytics Service'')]\<rparr>"
  using root_answers_200_message [of "loaded_request ''GET'' ''/''"
      "[bare_request ''GET'' ''/'', bare_request ''GET'' ''/health'',
        bare_request ''POST'' ''/'']"
      "''__main__''" bare_environment "[]"]
  by (simp add: loaded_request_def)

text \<open>
  C2. A GET request for the path /health is answered with status 200 and the body
  \<^verbatim>\<open>{"status": "OK"}\<close>, in every run of the module and after any requests; and the
  dict that \<^verbatim>\<open>health_check\<close> returns is this one in every state it is called in.
\<close>

theorem health_answers_200_ok:
  assumes "req_method req = ''GET''" and "req_path req = ''/health''"
  shows "fst (handle req (snd (serve reqs (boot name env h)))) =
           Some \<lparr>status_code = 200, content = [(''status'', ''OK'')]\<rparr>
         \<and> deref (snd (health_check s)) (fst (health_check s)) = [(''status'', ''OK'')]"
  using assms handle_health [of "snd (serve reqs (boot name env h))" req]
  by (simp add: app_running health_check_result)

theorem health_answers_200_ok_witness:
  "req_method (loaded_request ''GET'' ''/health'') = ''GET''
   \<and> req_path (loaded_request ''GET'' ''/health'') = ''/health''
   \<and> fst (handle (loaded_request ''GET'' ''/health'')
        (snd (serve [bare_request ''GET'' ''/health'', bare_request ''GET'' ''/'']
           (boot ''__main__'' bare_environment [])))) =
       Some \<lparr>status_code = 200, content = [(''status'', ''OK'')]\<rparr>"
  using health_answers_200_ok [of "loaded_request ''GET'' ''/health''"
      "[bare_request ''GET'' ''/health'', bare_request ''GET'' ''/'']"
      "''__main__''" bare_environment "[]"]
  by (simp add: loaded_request_def)

text \<open>
  C3. Calling the two handlers any number of times, in any order \<open>fs\<close>, from any state:
  the application object is as it was; every object that was in the heap is still
  there, unchanged, in its place; and the calls return references to objects that did
  not exist before, a different one each time, so that no returned dict is shared
  between two calls or kept from an earlier one. Serving any requests leaves the
  application object and the objects already in the heap unchanged as well.
\<close>

theorem handlers_have_no_side_effect:
  "app (snd (calls fs s)) = app s
   \<and> take (length (heap s)) (heap (snd (calls fs s))) = heap s
   \<and> length (heap (snd (calls fs s))) = length (heap s) + length fs
   \<and> fst (calls fs s) = [length (heap s) ..< length (heap s) + length fs]
   \<and> distinct (fst (calls fs s))
   \<and> set (fst (calls fs s)) \<inter> {..< length (heap s)} = {}
   \<and> app (snd (serve reqs s)) = app s
   \<and> take (length (heap s)) (heap (snd (serve reqs s))) = heap s"
proof -
  obtain new where new: "heap (snd (calls fs s)) = heap s @ new" "length new = length fs"
    using calls_heap by blast
  obtain new' where new': "heap (snd (serve reqs s)) = heap s @ new'"
    using serve_heap by blast
  have "set [length (heap s) ..< length (heap s) + length fs] \<inter> {..< length (heap s)} = {}"
    by auto
  then show ?thesis
    by (simp add: calls_app calls_refs serve_app new new')
qed

text \<open>
  C6. Two runs of the module, each with its own module name, environment, objects held
  at start and requests served so far: a GET request for / or for /health gets the same
  response in both, and so the same bytes under any encoding \<open>encode\<close> of a response;
  and it does get a response from a handler of the module.
\<close>

theorem responses_identical_across_runs:
  assumes "req_method req = ''GET''"
    and "req_path req = ''/'' \<or> req_path req = ''/health''"
  shows "map_option encode (fst (handle req (snd (serve reqs1 (boot name1 env1 h1))))) =
           map_option encode (fst (handle req (snd (serve reqs2 (boot name2 env2 h2)))))
         \<and> fst (handle req (snd (serve reqs1 (boot name1 env1 h1)))) \<noteq> None"
proof -
  let ?s1 = "snd (serve reqs1 (boot name1 env1 h1))"
  let ?s2 = "snd (serve reqs2 (boot name2 env2 h2))"
  have "app ?s1 = app ?s2"
    by (simp only: app_running)
  then have "fst (handle req ?s1) = fst (handle req ?s2)"
    by (rule handle_same_route [OF refl refl])
  moreover have "fst (handle req ?s1) \<noteq> None"
    using assms handle_root [of ?s1 req] handle_health [of ?s1 req]
    by (auto simp: app_running)
  ultimately show ?thesis by simp
qed

theorem responses_identical_across_runs_witness:
  "req_method (bare_request ''GET'' ''/health'') = ''GET''
   \<and> (req_path (bare_request ''GET'' ''/health'') = ''/''
        \<or> req_path (bare_request ''GET'' ''/health'') = ''/health'')
   \<and> map_option content
        (fst (handle (bare_request ''GET'' ''/health'')
           (snd (serve [] (boot ''__main__'' bare_environment []))))) =
      map_option content
        (fst (handle (bare_request ''GET'' ''/health'')
           (snd (serve [loaded_request ''GET'' ''/'', loaded_request ''PUT'' ''/health'']
              (boot ''main'' loaded_environment [[(''status'', ''DOWN'')]])))))
   \<and> fst (handle (bare_request ''GET'' ''/health'')
        (snd (serve [] (boot ''__main__'' bare_environment [])))) \<noteq> None"
  using responses_identical_across_runs [of "bare_request ''GET'' ''/health''" content
      "[]" "''__main__''" bare_environment "[]"
      "[loaded_request ''GET'' ''/'', loaded_request ''PUT'' ''/health'']"
      "''main''" loaded_environment "[[(''status'', ''DOWN'')]]"]
  by (simp add: bare_request_def)

text \<open>
  C7. Run under the name \<^verbatim>\<open>__main__\<close>, the module makes exactly one call to the server
  library: \<^verbatim>\<open>uvicorn.run\<close> on its application, with host 0.0.0.0 and port 8000. Under
  any other name, as when it is imported, it makes none. The command line, the
  environment variables and the files change nothing of either.
\<close>

theorem entry_point_listens_on_all_interfaces_port_8000:
  "exec_module ''__main__'' env = (module_app, [Uvicorn_run module_app ''0.0.0.0'' 8000])
   \<and> (name \<noteq> ''__main__'' \<longrightarrow> exec_module name env = (module_app, []))
   \<and> exec_module name env = exec_module name env'"
  by (simp add: exec_module_def)

theorem entry_point_listens_on_all_interfaces_port_8000_witness:
  "''main'' \<noteq> ''__main__''
   \<and> exec_module ''main'' loaded_environment = (module_app, [])
   \<and> exec_module ''__main__'' loaded_environment =
       (module_app, [Uvicorn_run module_app ''0.0.0.0'' 8000])
   \<and> exec_module ''main'' loaded_environment = exec_module ''main'' bare_environment"
proof -
  have other_name: "''main'' \<noteq> ''__main__''"
    by simp
  show ?thesis
    using other_name entry_point_listens_on_all_interfaces_port_8000
      [of loaded_environment "''main''" bare_environment]
    by blast
qed

text \<open>
  C9. Neither handler contains an \<^verbatim>\<open>await\<close>, so once the event loop starts a handler it
  runs to its return before another one starts: what concurrent requests can differ in
  is the order in which they are handled. In every order, each request gets the
  response it would get if it were served alone from the same state, so any two orders
  \<open>reqs\<close> and \<open>reqs'\<close> of the same requests give the same pairs of request and response;
  and two GET requests for /health, with any requests handled before, between and after
  them, both get status 200 and the body \<^verbatim>\<open>{"status": "OK"}\<close>.
\<close>

theorem concurrent_requests_do_not_interfere:
  assumes "mset reqs' = mset reqs"
    and "req_method r1 = ''GET''" and "req_path r1 = ''/health''"
    and "req_method r2 = ''GET''" and "req_path r2 = ''/health''"
  shows "fst (serve reqs s) = map (\<lambda>req. fst (handle req s)) reqs
         \<and> mset (zip reqs' (fst (serve reqs' s))) = mset (zip reqs (fst (serve reqs s)))
         \<and> fst (serve (pre @ r1 # mid @ r2 # post) (boot name env h)) ! length pre =
             Some \<lparr>status_code = 200, content = [(''status'', ''OK'')]\<rparr>
         \<and> fst (serve (pre @ r1 # mid @ r2 # post) (boot name env h))
               ! (length pre + Suc (length mid)) =
             Some \<lparr>status_code = 200, content = [(''status'', ''OK'')]\<rparr>"
proof -
  let ?alone = "\<lambda>t req. fst (handle req t)"
  have pairs: "zip xs (fst (serve xs s)) = map (\<lambda>req. (req, ?alone s req)) xs" for xs
    by (simp add: serve_responses zip_map2 zip_same_conv_map)
  have "mset (zip reqs' (fst (serve reqs' s))) =
          image_mset (\<lambda>req. (req, ?alone s req)) (mset reqs')"
    by (simp only: pairs mset_map)
  also have "\<dots> = image_mset (\<lambda>req. (req, ?alone s req)) (mset reqs)"
    by (simp only: assms(1))
  also have "\<dots> = mset (zip reqs (fst (serve reqs s)))"
    by (simp only: pairs mset_map)
  finally have orders: "mset (zip reqs' (fst (serve reqs' s))) = mset (zip reqs (fst (serve reqs s)))" .
  let ?b = "boot name env h"
  let ?all = "pre @ r1 # mid @ r2 # post"
  have first: "?all ! length pre = r1"
    by simp
  have "?all ! (length pre + Suc (length mid)) = (mid @ r2 # post) ! length mid"
    by (simp add: nth_append)
  then have second: "?all ! (length pre + Suc (length mid)) = r2"
    by simp
  have in_range: "length pre < length ?all" "length pre + Suc (length mid) < length ?all"
    by simp_all
  have r1: "?alone ?b r1 = Some \<lparr>status_code = 200, content = [(''status'', ''OK'')]\<rparr>"
    using assms(2,3) by (simp add: handle_health app_boot)
  have r2: "?alone ?b r2 = Some \<lparr>status_code = 200, content = [(''status'', ''OK'')]\<rparr>"
    using assms(4,5) by (simp add: handle_health app_boot)
  have "fst (serve ?all ?b) ! length pre = ?alone ?b r1"
    using in_range(1) first by (simp only: serve_responses nth_map)
  moreover have "fst (serve ?all ?b) ! (length pre + Suc (length mid)) = ?alone ?b r2"
    using in_range(2) second by (simp only: serve_responses nth_map)
  ultimately show ?thesis
    using orders r1 r2 by (simp only: serve_responses)
qed

theorem concurrent_requests_do_not_interfere_witness:
  "mset [loaded_request ''GET'' ''/health'', bare_request ''GET'' ''/'',
         bare_request ''GET'' ''/health''] =
     mset [bare_request ''GET'' ''/health'', loaded_request ''GET'' ''/health'',
           bare_request ''GET'' ''/'']
   \<and> req_method (bare_request ''GET'' ''/health'') = ''GET''
   \<and> req_path (bare_request ''GET'' ''/health'') = ''/health''
   \<and> req_method (loaded_request ''GET'' ''/health'') = ''GET''
   \<and> req_path (loaded_request ''GET'' ''/health'') = ''/health''
   \<and> mset (zip [loaded_request ''GET'' ''/health'', bare_request ''GET'' ''/'',
                 bare_request ''GET'' ''/health'']
          (fst (serve [loaded_request ''GET'' ''/health'', bare_request ''GET'' ''/'',
                       bare_request ''GET'' ''/health'']
             (boot ''__main__'' bare_environment [])))) =
       mset (zip [bare_request ''GET'' ''/health'', loaded_request ''GET'' ''/health'',
                  bare_request ''GET'' ''/'']
          (fst (serve [bare_request ''GET'' ''/health'', loaded_request ''GET'' ''/health'',
                       bare_request ''GET'' ''/'']
             (boot ''__main__'' bare_environment []))))
   \<and> fst (serve ([bare_request ''POST'' ''/''] @ bare_request ''GET'' ''/health''
                 # [bare_request ''GET'' ''/''] @ loaded_request ''GET'' ''/health'' # [])
          (boot ''__main__'' bare_environment [])) ! length [bare_request ''POST'' ''/''] =
       Some \<lparr>status_code = 200, content = [(''status'', ''OK'')]\<rparr>
   \<and> fst (serve ([bare_request ''POST'' ''/''] @ bare_request ''GET'' ''/health''
                 # [bare_request ''GET'' ''/''] @ loaded_request ''GET'' ''/health'' # [])
          (boot ''__main__'' bare_environment []))
         ! (length [bare_request ''POST'' ''/''] + Suc (length [bare_request ''GET'' ''/''])) =
       Some \<lparr>status_code = 200, content = [(''status'', ''OK'')]\<rparr>"
proof -
  have same_requests:
    "mset [loaded_request ''GET'' ''/health'', bare_request ''GET'' ''/'',
           bare_request ''GET'' ''/health''] =
       mset [bare_request ''GET'' ''/health'', loaded_request ''GET'' ''/health'',
             bare_request ''GET'' ''/'']"
    by simp
  have first: "req_method (bare_request ''GET'' ''/health'') = ''GET''"
    "req_path (bare_request ''GET'' ''/health'') = ''/health''"
    by (simp_all add: bare_request_def)
  have second: "req_method (loaded_request ''GET'' ''/health'') = ''GET''"
    "req_path (loaded_request ''GET'' ''/health'') = ''/health''"
    by (simp_all add: loaded_request_def)
  show ?thesis
    using same_requests first second
      concurrent_requests_do_not_interfere [OF same_requests first second,
        of "boot ''__main__'' bare_environment []"
        "[bare_request ''POST'' ''/'']" "[bare_request ''GET'' ''/'']" "[]"
        "''__main__''" bare_environment "[]"]
    by blast
qed

text \<open>
  C10. The handlers declare no parameter, so nothing of a request is passed to them:
  two requests with the same method and the same path, whatever their query strings,
  headers, cookies and bodies, get the same response and leave the same state when
  served in the same state; and they get the same response in any two states of a
  running service, whatever was served before.
\<close>

theorem request_content_does_not_reach_response:
  assumes "req_method r1 = req_method r2" and "req_path r1 = req_path r2"
  shows "handle r1 s = handle r2 s
         \<and> fst (handle r1 (snd (serve reqs1 (boot name1 env1 h1)))) =
             fst (handle r2 (snd (serve reqs2 (boot name2 env2 h2))))"
proof -
  have "app (snd (serve reqs1 (boot name1 env1 h1))) =
          app (snd (serve reqs2 (boot name2 env2 h2)))"
    by (simp only: app_running)
  then show ?thesis
    using assms handle_same_request_line [of r1 r2 s] handle_same_route by blast
qed

theorem request_content_does_not_reach_response_witness:
  "req_method (loaded_request ''GET'' ''/health'') = req_method (bare_request ''GET'' ''/health'')
   \<and> req_path (loaded_request ''GET'' ''/health'') = req_path (bare_request ''GET'' ''/health'')
   \<and> loaded_request ''GET'' ''/health'' \<noteq> bare_request ''GET'' ''/health''
   \<and> handle (loaded_request ''GET'' ''/health'') (boot ''__main__'' bare_environment []) =
       handle (bare_request ''GET'' ''/health'') (boot ''__main__'' bare_environment [])
   \<and> fst (handle (loaded_request ''GET'' ''/health'')
        (snd (serve [] (boot ''__main__'' bare_environment [])))) =
       fst (handle (bare_request ''GET'' ''/health'')
        (snd (serve [loaded_request ''GET'' ''/''] (boot ''__main__'' bare_environment []))))"
proof -
  have same_method:
    "req_method (loaded_request ''GET'' ''/health'') = req_method (bare_request ''GET'' ''/health'')"
    by (simp add: loaded_request_def bare_request_def)
  have same_path:
    "req_path (loaded_request ''GET'' ''/health'') = req_path (bare_request ''GET'' ''/health'')"
    by (simp add: loaded_request_def bare_request_def)
  have different: "loaded_request ''GET'' ''/health'' \<noteq> bare_request ''GET'' ''/health''"
    by (simp add: loaded_request_def bare_request_def)
  show ?thesis
    using same_method same_path different
      request_content_does_not_reach_response [OF same_method same_path,
        of "boot ''__main__'' bare_environment []"
        "[]" "''__main__''" bare_environment "[]"
        "[loaded_request ''GET'' ''/'']" "''__main__''" bare_environment "[]"]
    by blast
qed

end
